theory Spec2Isabelle
  imports Main "HOL-Library.Word" "HOL-Library.Code_Target_Nat"
begin

section \<open>Identifiers\<close>

text \<open>
  The package \<open>ids\<close> is imported by both source files and is not part of them. An
  \<open>ids.ID\<close> wraps 32 bytes and an \<open>ids.ShortID\<close> wraps 20 bytes; both are
  represented by their byte contents, and \<open>Equals\<close> is equality of the contents.
  \<open>ids.ShortSet\<close> and \<open>ids.Set\<close> are sets of such identifiers.
\<close>

type_synonym byte = "8 word"
type_synonym ID = "byte list"
type_synonym ShortID = "byte list"
type_synonym ShortSet = "ShortID set"
type_synonym IDSet = "ID set"
type_synonym uint32 = "32 word"

section \<open>The test sender (snow/networking/sender/test\_external\_sender.go)\<close>

text \<open>
  \<open>T\<close> and \<open>B\<close> are pointers to the testing handles: \<open>None\<close> is the nil pointer.
  A handle is identified by the name of the test or benchmark it belongs to.
\<close>

datatype testing_T = TestingT string
datatype testing_B = TestingB string

text \<open>
  A handler is a Go closure. What it does is a transformation of the world \<open>'w\<close> it
  closes over; a nil function value is \<open>None\<close>.
\<close>

record 'w ExternalSenderTest =
  T :: "testing_T option"
  B :: "testing_B option"
  CantGetAcceptedFrontier :: bool
  CantAcceptedFrontier :: bool
  CantGetAccepted :: bool
  CantAccepted :: bool
  CantGet :: bool
  CantPut :: bool
  CantPullQuery :: bool
  CantPushQuery :: bool
  CantChits :: bool
  GetAcceptedFrontierF :: "(ShortSet \<Rightarrow> ID \<Rightarrow> uint32 \<Rightarrow> 'w \<Rightarrow> 'w) option"
  AcceptedFrontierF :: "(ShortID \<Rightarrow> ID \<Rightarrow> uint32 \<Rightarrow> IDSet \<Rightarrow> 'w \<Rightarrow> 'w) option"
  GetAcceptedF :: "(ShortSet \<Rightarrow> ID \<Rightarrow> uint32 \<Rightarrow> IDSet \<Rightarrow> 'w \<Rightarrow> 'w) option"
  AcceptedF :: "(ShortID \<Rightarrow> ID \<Rightarrow> uint32 \<Rightarrow> IDSet \<Rightarrow> 'w \<Rightarrow> 'w) option"
  GetF :: "(ShortID \<Rightarrow> ID \<Rightarrow> uint32 \<Rightarrow> ID \<Rightarrow> 'w \<Rightarrow> 'w) option"
  PutF :: "(ShortID \<Rightarrow> ID \<Rightarrow> uint32 \<Rightarrow> ID \<Rightarrow> byte list \<Rightarrow> 'w \<Rightarrow> 'w) option"
  PushQueryF :: "(ShortSet \<Rightarrow> ID \<Rightarrow> uint32 \<Rightarrow> ID \<Rightarrow> byte list \<Rightarrow> 'w \<Rightarrow> 'w) option"
  PullQueryF :: "(ShortSet \<Rightarrow> ID \<Rightarrow> uint32 \<Rightarrow> ID \<Rightarrow> 'w \<Rightarrow> 'w) option"
  ChitsF :: "(ShortID \<Rightarrow> ID \<Rightarrow> uint32 \<Rightarrow> IDSet \<Rightarrow> 'w \<Rightarrow> 'w) option"

text \<open>
  How a call of one of the nine methods ends: it returns, in the world its handler left
  (the unchanged world when no handler ran), or it stops in \<open>Fatalf\<close> of the attached
  \<open>testing.T\<close> or \<open>testing.B\<close>, which logs the message, marks the test failed and
  does not return.
\<close>

datatype 'w outcome =
    Returned 'w
  | T_Fatalf testing_T string
  | B_Fatalf testing_B string

fun is_fatal :: "'w outcome \<Rightarrow> bool" where
  "is_fatal (Returned w) = False"
| "is_fatal (T_Fatalf t m) = True"
| "is_fatal (B_Fatalf b m) = True"

definition Default :: "bool \<Rightarrow> 'w ExternalSenderTest \<Rightarrow> 'w ExternalSenderTest" where
  "Default cant s = s\<lparr>
     CantGetAcceptedFrontier := cant,
     CantAcceptedFrontier := cant,
     CantGetAccepted := cant,
     CantAccepted := cant,
     CantGet := cant,
     CantPut := cant,
     CantPullQuery := cant,
     CantPushQuery := cant,
     CantChits := cant\<rparr>"

definition GetAcceptedFrontier ::
  "'w ExternalSenderTest \<Rightarrow> ShortSet \<Rightarrow> ID \<Rightarrow> uint32 \<Rightarrow> 'w \<Rightarrow> 'w outcome" where
  "GetAcceptedFrontier s validatorIDs chainID requestID w =
     (case GetAcceptedFrontierF s of
        Some f \<Rightarrow> Returned (f validatorIDs chainID requestID w)
      | None \<Rightarrow>
          if CantGetAcceptedFrontier s \<and> T s \<noteq> None
          then T_Fatalf (the (T s)) ''Unexpectedly called GetAcceptedFrontier''
          else if CantGetAcceptedFrontier s \<and> B s \<noteq> None
          then B_Fatalf (the (B s)) ''Unexpectedly called GetAcceptedFrontier''
          else Returned w)"

definition AcceptedFrontier ::
  "'w ExternalSenderTest \<Rightarrow> ShortID \<Rightarrow> ID \<Rightarrow> uint32 \<Rightarrow> IDSet \<Rightarrow> 'w \<Rightarrow> 'w outcome" where
  "AcceptedFrontier s validatorID chainID requestID containerIDs w =
     (case AcceptedFrontierF s of
        Some f \<Rightarrow> Returned (f validatorID chainID requestID containerIDs w)
      | None \<Rightarrow>
          if CantAcceptedFrontier s \<and> T s \<noteq> None
          then T_Fatalf (the (T s)) ''Unexpectedly called AcceptedFrontier''
          else if CantAcceptedFrontier s \<and> B s \<noteq> None
          then B_Fatalf (the (B s)) ''Unexpectedly called AcceptedFrontier''
          else Returned w)"

definition GetAccepted ::
  "'w ExternalSenderTest \<Rightarrow> ShortSet \<Rightarrow> ID \<Rightarrow> uint32 \<Rightarrow> IDSet \<Rightarrow> 'w \<Rightarrow> 'w outcome" where
  "GetAccepted s validatorIDs chainID requestID containerIDs w =
     (case GetAcceptedF s of
        Some f \<Rightarrow> Returned (f validatorIDs chainID requestID containerIDs w)
      | None \<Rightarrow>
          if CantGetAccepted s \<and> T s \<noteq> None
          then T_Fatalf (the (T s)) ''Unexpectedly called GetAccepted''
          else if CantGetAccepted s \<and> B s \<noteq> None
          then B_Fatalf (the (B s)) ''Unexpectedly called GetAccepted''
          else Returned w)"

definition Accepted ::
  "'w ExternalSenderTest \<Rightarrow> ShortID \<Rightarrow> ID \<Rightarrow> uint32 \<Rightarrow> IDSet \<Rightarrow> 'w \<Rightarrow> 'w outcome" where
  "Accepted s validatorID chainID requestID containerIDs w =
     (case AcceptedF s of
        Some f \<Rightarrow> Returned (f validatorID chainID requestID containerIDs w)
      | None \<Rightarrow>
          if CantAccepted s \<and> T s \<noteq> None
          then T_Fatalf (the (T s)) ''Unexpectedly called Accepted''
          else if CantAccepted s \<and> B s \<noteq> None
          then B_Fatalf (the (B s)) ''Unexpectedly called Accepted''
          else Returned w)"

definition Get ::
  "'w ExternalSenderTest \<Rightarrow> ShortID \<Rightarrow> ID \<Rightarrow> uint32 \<Rightarrow> ID \<Rightarrow> 'w \<Rightarrow> 'w outcome" where
  "Get s vdr chainID requestID vtxID w =
     (case GetF s of
        Some f \<Rightarrow> Returned (f vdr chainID requestID vtxID w)
      | None \<Rightarrow>
          if CantGet s \<and> T s \<noteq> None
          then T_Fatalf (the (T s)) ''Unexpectedly called Get''
          else if CantGet s \<and> B s \<noteq> None
          then B_Fatalf (the (B s)) ''Unexpectedly called Get''
          else Returned w)"

definition Put ::
  "'w ExternalSenderTest \<Rightarrow> ShortID \<Rightarrow> ID \<Rightarrow> uint32 \<Rightarrow> ID \<Rightarrow> byte list \<Rightarrow> 'w \<Rightarrow> 'w outcome" where
  "Put s vdr chainID requestID vtxID vtx w =
     (case PutF s of
        Some f \<Rightarrow> Returned (f vdr chainID requestID vtxID vtx w)
      | None \<Rightarrow>
          if CantPut s \<and> T s \<noteq> None
          then T_Fatalf (the (T s)) ''Unexpectedly called Put''
          else if CantPut s \<and> B s \<noteq> None
          then B_Fatalf (the (B s)) ''Unexpectedly called Put''
          else Returned w)"

definition PushQuery ::
  "'w ExternalSenderTest \<Rightarrow> ShortSet \<Rightarrow> ID \<Rightarrow> uint32 \<Rightarrow> ID \<Rightarrow> byte list \<Rightarrow> 'w \<Rightarrow> 'w outcome" where
  "PushQuery s vdrs chainID requestID vtxID vtx w =
     (case PushQueryF s of
        Some f \<Rightarrow> Returned (f vdrs chainID requestID vtxID vtx w)
      | None \<Rightarrow>
          if CantPushQuery s \<and> T s \<noteq> None
          then T_Fatalf (the (T s)) ''Unexpectedly called PushQuery''
          else if CantPushQuery s \<and> B s \<noteq> None
          then B_Fatalf (the (B s)) ''Unexpectedly called PushQuery''
          else Returned w)"

definition PullQuery ::
  "'w ExternalSenderTest \<Rightarrow> ShortSet \<Rightarrow> ID \<Rightarrow> uint32 \<Rightarrow> ID \<Rightarrow> 'w \<Rightarrow> 'w outcome" where
  "PullQuery s vdrs chainID requestID vtxID w =
     (case PullQueryF s of
        Some f \<Rightarrow> Returned (f vdrs chainID requestID vtxID w)
      | None \<Rightarrow>
          if CantPullQuery s \<and> T s \<noteq> None
          then T_Fatalf (the (T s)) ''Unexpectedly called PullQuery''
          else if CantPullQuery s \<and> B s \<noteq> None
          then B_Fatalf (the (B s)) ''Unexpectedly called PullQuery''
          else Returned w)"

definition Chits ::
  "'w ExternalSenderTest \<Rightarrow> ShortID \<Rightarrow> ID \<Rightarrow> uint32 \<Rightarrow> IDSet \<Rightarrow> 'w \<Rightarrow> 'w outcome" where
  "Chits s vdr chainID requestID votes w =
     (case ChitsF s of
        Some f \<Rightarrow> Returned (f vdr chainID requestID votes w)
      | None \<Rightarrow>
          if CantChits s \<and> T s \<noteq> None
          then T_Fatalf (the (T s)) ''Unexpectedly called Chits''
          else if CantChits s \<and> B s \<noteq> None
          then B_Fatalf (the (B s)) ''Unexpectedly called Chits''
          else Returned w)"

subsection \<open>The nine methods as one interface\<close>

text \<open>
  A call of the sender: one constructor per method, with the method's parameters in the
  order and with the types of its signature.
\<close>

datatype call =
    GetAcceptedFrontier_call ShortSet ID uint32
  | AcceptedFrontier_call ShortID ID uint32 IDSet
  | GetAccepted_call ShortSet ID uint32 IDSet
  | Accepted_call ShortID ID uint32 IDSet
  | Get_call ShortID ID uint32 ID
  | Put_call ShortID ID uint32 ID "byte list"
  | PushQuery_call ShortSet ID uint32 ID "byte list"
  | PullQuery_call ShortSet ID uint32 ID
  | Chits_call ShortID ID uint32 IDSet

fun invoke :: "'w ExternalSenderTest \<Rightarrow> call \<Rightarrow> 'w \<Rightarrow> 'w outcome" where
  "invoke s (GetAcceptedFrontier_call validatorIDs chainID requestID) w =
     GetAcceptedFrontier s validatorIDs chainID requestID w"
| "invoke s (AcceptedFrontier_call validatorID chainID requestID containerIDs) w =
     AcceptedFrontier s validatorID chainID requestID containerIDs w"
| "invoke s (GetAccepted_call validatorIDs chainID requestID containerIDs) w =
     GetAccepted s validatorIDs chainID requestID containerIDs w"
| "invoke s (Accepted_call validatorID chainID requestID containerIDs) w =
     Accepted s validatorID chainID requestID containerIDs w"
| "invoke s (Get_call vdr chainID requestID vtxID) w =
     Get s vdr chainID requestID vtxID w"
| "invoke s (Put_call vdr chainID requestID vtxID vtx) w =
     Put s vdr chainID requestID vtxID vtx w"
| "invoke s (PushQuery_call vdrs chainID requestID vtxID vtx) w =
     PushQuery s vdrs chainID requestID vtxID vtx w"
| "invoke s (PullQuery_call vdrs chainID requestID vtxID) w =
     PullQuery s vdrs chainID requestID vtxID w"
| "invoke s (Chits_call vdr chainID requestID votes) w =
     Chits s vdr chainID requestID votes w"

datatype kind =
    K_GetAcceptedFrontier | K_AcceptedFrontier | K_GetAccepted | K_Accepted
  | K_Get | K_Put | K_PushQuery | K_PullQuery | K_Chits

fun kind_of :: "call \<Rightarrow> kind" where
  "kind_of (GetAcceptedFrontier_call validatorIDs chainID requestID) = K_GetAcceptedFrontier"
| "kind_of (AcceptedFrontier_call validatorID chainID requestID containerIDs) = K_AcceptedFrontier"
| "kind_of (GetAccepted_call validatorIDs chainID requestID containerIDs) = K_GetAccepted"
| "kind_of (Accepted_call validatorID chainID requestID containerIDs) = K_Accepted"
| "kind_of (Get_call vdr chainID requestID vtxID) = K_Get"
| "kind_of (Put_call vdr chainID requestID vtxID vtx) = K_Put"
| "kind_of (PushQuery_call vdrs chainID requestID vtxID vtx) = K_PushQuery"
| "kind_of (PullQuery_call vdrs chainID requestID vtxID) = K_PullQuery"
| "kind_of (Chits_call vdr chainID requestID votes) = K_Chits"

fun kind_name :: "kind \<Rightarrow> string" where
  "kind_name K_GetAcceptedFrontier = ''GetAcceptedFrontier''"
| "kind_name K_AcceptedFrontier = ''AcceptedFrontier''"
| "kind_name K_GetAccepted = ''GetAccepted''"
| "kind_name K_Accepted = ''Accepted''"
| "kind_name K_Get = ''Get''"
| "kind_name K_Put = ''Put''"
| "kind_name K_PushQuery = ''PushQuery''"
| "kind_name K_PullQuery = ''PullQuery''"
| "kind_name K_Chits = ''Chits''"

definition all_kinds :: "kind list" where
  "all_kinds = [K_GetAcceptedFrontier, K_AcceptedFrontier, K_GetAccepted, K_Accepted,
     K_Get, K_Put, K_PushQuery, K_PullQuery, K_Chits]"

text \<open>The first parameter of a method: a set of peers or one peer.\<close>

datatype peers = PeerSet ShortSet | OnePeer ShortID

fun is_peer_set :: "peers \<Rightarrow> bool" where
  "is_peer_set (PeerSet vs) = True"
| "is_peer_set (OnePeer v) = False"

fun first_argument :: "call \<Rightarrow> peers" where
  "first_argument (GetAcceptedFrontier_call validatorIDs chainID requestID) = PeerSet validatorIDs"
| "first_argument (AcceptedFrontier_call validatorID chainID requestID containerIDs) = OnePeer validatorID"
| "first_argument (GetAccepted_call validatorIDs chainID requestID containerIDs) = PeerSet validatorIDs"
| "first_argument (Accepted_call validatorID chainID requestID containerIDs) = OnePeer validatorID"
| "first_argument (Get_call vdr chainID requestID vtxID) = OnePeer vdr"
| "first_argument (Put_call vdr chainID requestID vtxID vtx) = OnePeer vdr"
| "first_argument (PushQuery_call vdrs chainID requestID vtxID vtx) = PeerSet vdrs"
| "first_argument (PullQuery_call vdrs chainID requestID vtxID) = PeerSet vdrs"
| "first_argument (Chits_call vdr chainID requestID votes) = OnePeer vdr"

text \<open>The second and third parameters of every method.\<close>

fun chainID_of :: "call \<Rightarrow> ID" where
  "chainID_of (GetAcceptedFrontier_call validatorIDs chainID requestID) = chainID"
| "chainID_of (AcceptedFrontier_call validatorID chainID requestID containerIDs) = chainID"
| "chainID_of (GetAccepted_call validatorIDs chainID requestID containerIDs) = chainID"
| "chainID_of (Accepted_call validatorID chainID requestID containerIDs) = chainID"
| "chainID_of (Get_call vdr chainID requestID vtxID) = chainID"
| "chainID_of (Put_call vdr chainID requestID vtxID vtx) = chainID"
| "chainID_of (PushQuery_call vdrs chainID requestID vtxID vtx) = chainID"
| "chainID_of (PullQuery_call vdrs chainID requestID vtxID) = chainID"
| "chainID_of (Chits_call vdr chainID requestID votes) = chainID"

fun requestID_of :: "call \<Rightarrow> uint32" where
  "requestID_of (GetAcceptedFrontier_call validatorIDs chainID requestID) = requestID"
| "requestID_of (AcceptedFrontier_call validatorID chainID requestID containerIDs) = requestID"
| "requestID_of (GetAccepted_call validatorIDs chainID requestID containerIDs) = requestID"
| "requestID_of (Accepted_call validatorID chainID requestID containerIDs) = requestID"
| "requestID_of (Get_call vdr chainID requestID vtxID) = requestID"
| "requestID_of (Put_call vdr chainID requestID vtxID vtx) = requestID"
| "requestID_of (PushQuery_call vdrs chainID requestID vtxID vtx) = requestID"
| "requestID_of (PullQuery_call vdrs chainID requestID vtxID) = requestID"
| "requestID_of (Chits_call vdr chainID requestID votes) = requestID"

text \<open>The flag and the handler a method consults, by kind.\<close>

fun cant_of :: "kind \<Rightarrow> 'w ExternalSenderTest \<Rightarrow> bool" where
  "cant_of K_GetAcceptedFrontier s = CantGetAcceptedFrontier s"
| "cant_of K_AcceptedFrontier s = CantAcceptedFrontier s"
| "cant_of K_GetAccepted s = CantGetAccepted s"
| "cant_of K_Accepted s = CantAccepted s"
| "cant_of K_Get s = CantGet s"
| "cant_of K_Put s = CantPut s"
| "cant_of K_PushQuery s = CantPushQuery s"
| "cant_of K_PullQuery s = CantPullQuery s"
| "cant_of K_Chits s = CantChits s"

fun handler_nil :: "kind \<Rightarrow> 'w ExternalSenderTest \<Rightarrow> bool" where
  "handler_nil K_GetAcceptedFrontier s = (GetAcceptedFrontierF s = None)"
| "handler_nil K_AcceptedFrontier s = (AcceptedFrontierF s = None)"
| "handler_nil K_GetAccepted s = (GetAcceptedF s = None)"
| "handler_nil K_Accepted s = (AcceptedF s = None)"
| "handler_nil K_Get s = (GetF s = None)"
| "handler_nil K_Put s = (PutF s = None)"
| "handler_nil K_PushQuery s = (PushQueryF s = None)"
| "handler_nil K_PullQuery s = (PullQueryF s = None)"
| "handler_nil K_Chits s = (ChitsF s = None)"

text \<open>The zero value of the struct: no handle, no flag, no handler.\<close>

definition zero_sender :: "'w ExternalSenderTest" where
  "zero_sender = \<lparr>T = None, B = None,
     CantGetAcceptedFrontier = False, CantAcceptedFrontier = False,
     CantGetAccepted = False, CantAccepted = False,
     CantGet = False, CantPut = False,
     CantPullQuery = False, CantPushQuery = False, CantChits = False,
     GetAcceptedFrontierF = None, AcceptedFrontierF = None,
     GetAcceptedF = None, AcceptedF = None,
     GetF = None, PutF = None,
     PushQueryF = None, PullQueryF = None, ChitsF = None\<rparr>"

text \<open>
  A sender for a test: \<open>T\<close> is attached, every flag is set, and every handler appends
  the call it received, with its arguments, to a log (the world is the log).
\<close>

definition recorder :: "call list ExternalSenderTest" where
  "recorder = \<lparr>T = Some (TestingT ''TestSender''), B = None,
     CantGetAcceptedFrontier = True, CantAcceptedFrontier = True,
     CantGetAccepted = True, CantAccepted = True,
     CantGet = True, CantPut = True,
     CantPullQuery = True, CantPushQuery = True, CantChits = True,
     GetAcceptedFrontierF = Some (\<lambda>validatorIDs chainID requestID w.
       w @ [GetAcceptedFrontier_call validatorIDs chainID requestID]),
     AcceptedFrontierF = Some (\<lambda>validatorID chainID requestID containerIDs w.
       w @ [AcceptedFrontier_call validatorID chainID requestID containerIDs]),
     GetAcceptedF = Some (\<lambda>validatorIDs chainID requestID containerIDs w.
       w @ [GetAccepted_call validatorIDs chainID requestID containerIDs]),
     AcceptedF = Some (\<lambda>validatorID chainID requestID containerIDs w.
       w @ [Accepted_call validatorID chainID requestID containerIDs]),
     GetF = Some (\<lambda>vdr chainID requestID vtxID w.
       w @ [Get_call vdr chainID requestID vtxID]),
     PutF = Some (\<lambda>vdr chainID requestID vtxID vtx w.
       w @ [Put_call vdr chainID requestID vtxID vtx]),
     PushQueryF = Some (\<lambda>vdrs chainID requestID vtxID vtx w.
       w @ [PushQuery_call vdrs chainID requestID vtxID vtx]),
     PullQueryF = Some (\<lambda>vdrs chainID requestID vtxID w.
       w @ [PullQuery_call vdrs chainID requestID vtxID]),
     ChitsF = Some (\<lambda>vdr chainID requestID votes w.
       w @ [Chits_call vdr chainID requestID votes])\<rparr>"

section \<open>Network names (genesis/genesis.go)\<close>

definition MainnetID :: uint32 where "MainnetID = 1"
definition TestnetID :: uint32 where "TestnetID = 2"
definition BorealisID :: uint32 where "BorealisID = 2"
definition LocalID :: uint32 where "LocalID = 12345"

definition MainnetName :: string where "MainnetName = ''mainnet''"
definition TestnetName :: string where "TestnetName = ''testnet''"
definition BorealisName :: string where "BorealisName = ''borealis''"
definition LocalName :: string where "LocalName = ''local''"

definition NetworkIDToNetworkName :: "uint32 \<rightharpoonup> string" where
  "NetworkIDToNetworkName =
     [MainnetID \<mapsto> MainnetName, TestnetID \<mapsto> BorealisName, LocalID \<mapsto> LocalName]"

definition NetworkNameToNetworkID :: "string \<rightharpoonup> uint32" where
  "NetworkNameToNetworkID =
     [MainnetName \<mapsto> MainnetID, TestnetName \<mapsto> TestnetID,
      BorealisName \<mapsto> BorealisID, LocalName \<mapsto> LocalID]"

text \<open>
  A failure of a function of this package: an \<open>error\<close> value it returns (its message),
  or a panic.
\<close>

datatype failure = Error string | Panic string

subsection \<open>The Go library functions the package calls\<close>

text \<open>
  \<open>fmt.Sprintf("%d", n)\<close> for an unsigned \<open>n\<close>: the decimal digits, most significant
  first, no sign and no leading zero (\<open>0\<close> is \<open>"0"\<close>).
\<close>

definition digit_char :: "nat \<Rightarrow> char" where
  "digit_char d = char_of (48 + d)"

function decimal :: "nat \<Rightarrow> string" where
  "decimal n = (if n < 10 then [digit_char n] else decimal (n div 10) @ [digit_char (n mod 10)])"
  by pat_completeness auto
termination
  by (relation "measure id") auto

declare decimal.simps [simp del]

definition is_digit :: "char \<Rightarrow> bool" where
  "is_digit c = (48 \<le> (of_char c :: nat) \<and> (of_char c :: nat) \<le> 57)"

definition digit_val :: "char \<Rightarrow> nat" where
  "digit_val c = of_char c - 48"

text \<open>
  \<open>strings.ToLower\<close> on the bytes of an ASCII string: \<open>A\<close> to \<open>Z\<close> become
  \<open>a\<close> to \<open>z\<close>, every other byte below 128 stays. (Go also maps the upper-case letters
  beyond ASCII; bytes from 128 on are left as they are here.)
\<close>

definition lower_char :: "char \<Rightarrow> char" where
  "lower_char c =
     (if 65 \<le> (of_char c :: nat) \<and> (of_char c :: nat) \<le> 90
      then char_of ((of_char c :: nat) + 32) else c)"

definition ToLower :: "string \<Rightarrow> string" where
  "ToLower s = map lower_char s"

datatype num_error = ErrSyntax | ErrRange

definition maxUint64 :: nat where "maxUint64 = 2 ^ 64 - 1"
definition MaxUint32 :: nat where "MaxUint32 = 2 ^ 32 - 1"

text \<open>
  The digit loop of \<open>strconv.ParseUint(s, 10, 0)\<close> on a platform whose \<open>uint\<close> has
  64 bits: a byte that is no decimal digit is a syntax error; a value that leaves
  64 bits is a range error. The first error met, left to right, is the one returned.
\<close>

fun ParseUint_loop :: "nat \<Rightarrow> string \<Rightarrow> num_error + nat" where
  "ParseUint_loop n [] = Inr n"
| "ParseUint_loop n (c # cs) =
     (if \<not> is_digit c then Inl ErrSyntax
      else if n \<ge> maxUint64 div 10 + 1 then Inl ErrRange
      else if n * 10 + digit_val c > maxUint64 then Inl ErrRange
      else ParseUint_loop (n * 10 + digit_val c) cs)"

definition ParseUint :: "string \<Rightarrow> num_error + nat" where
  "ParseUint s = (if s = [] then Inl ErrSyntax else ParseUint_loop 0 s)"

text \<open>
  \<open>strconv.Atoi\<close> with a 64-bit \<open>int\<close> (the package compares an \<open>int\<close> with
  \<open>math.MaxUint32\<close>, which compiles only there): an optional sign, then the digits read
  as by \<open>ParseUint\<close>; the value must fit the signed 64-bit range.
\<close>

definition Atoi :: "string \<Rightarrow> num_error + int" where
  "Atoi s =
     (if s = [] then Inl ErrSyntax
      else
        let neg = (hd s = CHR ''-'');
            t = (if hd s = CHR ''+'' \<or> hd s = CHR ''-'' then tl s else s)
        in case ParseUint t of
             Inl e \<Rightarrow> Inl e
           | Inr un \<Rightarrow>
               if \<not> neg \<and> un \<ge> 2 ^ 63 then Inl ErrRange
               else if neg \<and> un > 2 ^ 63 then Inl ErrRange
               else Inr (if neg then - int un else int un))"

text \<open>
  \<open>validNetworkName.MatchString\<close> for the pattern \<open>network-[0-9]+\<close>, which is not
  anchored: some position of the string starts with \<open>network-\<close> and a digit.
\<close>

definition matches_here :: "string \<Rightarrow> bool" where
  "matches_here s =
     (case drop 8 s of [] \<Rightarrow> False | d # ds \<Rightarrow> take 8 s = ''network-'' \<and> is_digit d)"

fun validNetworkName_MatchString :: "string \<Rightarrow> bool" where
  "validNetworkName_MatchString [] = False"
| "validNetworkName_MatchString (c # cs) =
     (matches_here (c # cs) \<or> validNetworkName_MatchString cs)"

subsection \<open>NetworkName and NetworkID\<close>

definition NetworkName :: "uint32 \<Rightarrow> string" where
  "NetworkName networkID =
     (case NetworkIDToNetworkName networkID of
        Some name \<Rightarrow> name
      | None \<Rightarrow> ''network-'' @ decimal (unat networkID))"

text \<open>
  The result \<open>(id, nil)\<close> is \<open>Inr id\<close>; a result with an error is \<open>Inl\<close> of it (the
  number returned beside an error is always 0). The slice \<open>networkName[8:]\<close> panics on
  a string shorter than 8 bytes.
\<close>

definition NetworkID :: "string \<Rightarrow> failure + uint32" where
  "NetworkID name =
     (let networkName = ToLower name in
      case NetworkNameToNetworkID networkName of
        Some i \<Rightarrow> Inr i
      | None \<Rightarrow>
          (case ParseUint networkName of
             Inr i \<Rightarrow>
               if i > MaxUint32
               then Inl (Error (''NetworkID '' @ networkName @ '' not in [0, 2^32)''))
               else Inr (of_nat i)
           | Inl e \<Rightarrow>
               if validNetworkName_MatchString networkName
               then
                 (if length networkName < 8 then Inl (Panic ''slice bounds out of range'')
                  else
                    case Atoi (drop 8 networkName) of
                      Inr i \<Rightarrow>
                        if i > int MaxUint32
                        then Inl (Error (''NetworkID '' @ networkName @ '' not in [0, 2^32)''))
                        else Inr (of_int i)
                    | Inl e' \<Rightarrow>
                        Inl (Error (''Failed to parse '' @ networkName @ '' as a network name'')))
               else Inl (Error (''Failed to parse '' @ networkName @ '' as a network name''))))"

section \<open>Genesis state and aliases (genesis/genesis.go)\<close>

text \<open>
  The package \<open>platformvm\<close> is imported and not part of the source. Of its types the
  file uses the fields below. \<open>Validators\<close> is a pointer to an event heap, here the
  list of the heap's entries (\<open>None\<close> is the nil pointer); of a \<open>CreateChainTx\<close>
  only the field \<open>VMID\<close> is read, the rest of the transaction is \<open>body\<close>.
\<close>

record 'b CreateChainTx =
  VMID :: ID
  body :: 'b

record ('a, 'v, 'b) platformvm_Genesis =
  Accounts :: "'a list"
  Validators :: "'v list option"
  Chains :: "'b CreateChainTx list"
  Timestamp :: "64 word"

text \<open>
  What the file takes from the packages it imports, as parameters: the codec of
  \<open>platformvm\<close> (\<open>Marshal\<close> returns the bytes or an error; \<open>Unmarshal\<close> fills the
  structure it is given, and its error is dropped by both callers, so only the structure
  it leaves counts), \<open>Genesis.Initialize\<close>, the method \<open>ID()\<close> of a chain
  transaction, the methods \<open>String()\<close> and \<open>Key()\<close> of an identifier, the empty
  identifier and the identifiers of the six virtual machines.
\<close>

record ('a, 'v, 'b) packages =
  Codec_Marshal :: "('a, 'v, 'b) platformvm_Genesis \<Rightarrow> string + byte list"
  Codec_Unmarshal ::
    "byte list \<Rightarrow> ('a, 'v, 'b) platformvm_Genesis \<Rightarrow> ('a, 'v, 'b) platformvm_Genesis"
  Genesis_Initialize :: "('a, 'v, 'b) platformvm_Genesis \<Rightarrow> ('a, 'v, 'b) platformvm_Genesis"
  CreateChainTx_ID :: "'b CreateChainTx \<Rightarrow> ID"
  ID_String :: "ID \<Rightarrow> string"
  ID_Key :: "ID \<Rightarrow> byte list"
  ids_Empty :: ID
  platformvm_ID :: ID
  avm_ID :: ID
  evm_ID :: ID
  spdagvm_ID :: ID
  spchainvm_ID :: ID
  timestampvm_ID :: ID

text \<open>
  \<open>Genesis\<close> marshals a state with no account, an empty heap, no chain and time 0.
\<close>

definition Genesis :: "('a, 'v, 'b) packages \<Rightarrow> uint32 \<Rightarrow> failure + byte list" where
  "Genesis pk networkID =
     (if networkID \<noteq> LocalID then Inl (Panic ''unknown network ID provided'')
      else
        case Codec_Marshal pk
               \<lparr>Accounts = [], Validators = Some [], Chains = [], Timestamp = 0\<rparr> of
          Inl err \<Rightarrow> Inl (Panic err)
        | Inr genesisBytes \<Rightarrow> Inr genesisBytes)"

type_synonym generalAliases = "string \<rightharpoonup> string list"
type_synonym keyAliases = "byte list \<rightharpoonup> string list"

text \<open>
  The three map literals of \<open>Aliases\<close>. The entries of a literal are stored in the
  order they are written, so of two entries with one key the later stays.
\<close>

definition base_generalAliases :: "('a, 'v, 'b) packages \<Rightarrow> generalAliases" where
  "base_generalAliases pk =
     [''vm/'' @ ID_String pk (platformvm_ID pk) \<mapsto> [''vm/platform''],
      ''vm/'' @ ID_String pk (avm_ID pk) \<mapsto> [''vm/avm''],
      ''vm/'' @ ID_String pk (evm_ID pk) \<mapsto> [''vm/evm''],
      ''vm/'' @ ID_String pk (spdagvm_ID pk) \<mapsto> [''vm/spdag''],
      ''vm/'' @ ID_String pk (spchainvm_ID pk) \<mapsto> [''vm/spchain''],
      ''vm/'' @ ID_String pk (timestampvm_ID pk) \<mapsto> [''vm/timestamp''],
      ''bc/'' @ ID_String pk (ids_Empty pk) \<mapsto> [''P'', ''platform'', ''bc/P'', ''bc/platform'']]"

definition base_chainAliases :: "('a, 'v, 'b) packages \<Rightarrow> keyAliases" where
  "base_chainAliases pk = [ID_Key pk (ids_Empty pk) \<mapsto> [''P'', ''platform'']]"

definition base_vmAliases :: "('a, 'v, 'b) packages \<Rightarrow> keyAliases" where
  "base_vmAliases pk =
     [ID_Key pk (platformvm_ID pk) \<mapsto> [''platform''],
      ID_Key pk (avm_ID pk) \<mapsto> [''avm''],
      ID_Key pk (evm_ID pk) \<mapsto> [''evm''],
      ID_Key pk (spdagvm_ID pk) \<mapsto> [''spdag''],
      ID_Key pk (spchainvm_ID pk) \<mapsto> [''spchain''],
      ID_Key pk (timestampvm_ID pk) \<mapsto> [''timestamp'']]"

text \<open>One round of the loop over \<open>genesis.Chains\<close>, for the chain \<open>tx\<close>: the first case
  of the switch that holds.\<close>

definition alias_chain ::
  "('a, 'v, 'b) packages \<Rightarrow> 'b CreateChainTx \<Rightarrow> generalAliases \<times> keyAliases \<Rightarrow>
   generalAliases \<times> keyAliases" where
  "alias_chain pk tx tables =
     (let generalAliases = fst tables; chainAliases = snd tables;
          name = ''bc/'' @ ID_String pk (CreateChainTx_ID pk tx);
          key = ID_Key pk (CreateChainTx_ID pk tx)
      in
        if avm_ID pk = VMID tx then
          (generalAliases(name \<mapsto> [''X'', ''avm'', ''bc/X'', ''bc/avm'']),
           chainAliases(key \<mapsto> [''X'', ''avm'']))
        else if evm_ID pk = VMID tx then
          (generalAliases(name \<mapsto> [''C'', ''evm'', ''bc/C'', ''bc/evm'']),
           chainAliases(key \<mapsto> [''C'', ''evm'']))
        else if spdagvm_ID pk = VMID tx then
          (generalAliases(name \<mapsto> [''bc/spdag'']), chainAliases(key \<mapsto> [''spdag'']))
        else if spchainvm_ID pk = VMID tx then
          (generalAliases(name \<mapsto> [''bc/spchain'']), chainAliases(key \<mapsto> [''spchain'']))
        else if timestampvm_ID pk = VMID tx then
          (generalAliases(name \<mapsto> [''bc/timestamp'']), chainAliases(key \<mapsto> [''timestamp'']))
        else (generalAliases, chainAliases))"

fun alias_chains ::
  "('a, 'v, 'b) packages \<Rightarrow> 'b CreateChainTx list \<Rightarrow> generalAliases \<times> keyAliases \<Rightarrow>
   generalAliases \<times> keyAliases" where
  "alias_chains pk [] tables = tables"
| "alias_chains pk (tx # txs) tables = alias_chains pk txs (alias_chain pk tx tables)"


text \<open>
  The genesis structure \<open>Aliases\<close> loops over: the bytes unmarshalled into the zero
  value \<open>platformvm.Genesis{}\<close>, then initialized.
\<close>

definition aliases_genesis ::
  "('a, 'v, 'b) packages \<Rightarrow> byte list \<Rightarrow> ('a, 'v, 'b) platformvm_Genesis" where
  "aliases_genesis pk genesisBytes =
     Genesis_Initialize pk
       (Codec_Unmarshal pk genesisBytes
          \<lparr>Accounts = [], Validators = None, Chains = [], Timestamp = 0\<rparr>)"

definition Aliases ::
  "('a, 'v, 'b) packages \<Rightarrow> uint32 \<Rightarrow> failure + (generalAliases \<times> keyAliases \<times> keyAliases)" where
  "Aliases pk networkID =
     (case Genesis pk networkID of
        Inl p \<Rightarrow> Inl p
      | Inr genesisBytes \<Rightarrow>
          let genesis = aliases_genesis pk genesisBytes;
              tables = alias_chains pk (Chains genesis)
                         (base_generalAliases pk, base_chainAliases pk)
          in Inr (fst tables, snd tables, base_vmAliases pk))"

text \<open>\<open>VMGenesis\<close>: the first chain of the genesis for the machine, or nil.\<close>

definition VMGenesis ::
  "('a, 'v, 'b) packages \<Rightarrow> uint32 \<Rightarrow> ID \<Rightarrow> failure + 'b CreateChainTx option" where
  "VMGenesis pk networkID vmID =
     (case Genesis pk networkID of
        Inl p \<Rightarrow> Inl p
      | Inr genesisBytes \<Rightarrow>
          let genesis = Codec_Unmarshal pk genesisBytes
                          \<lparr>Accounts = [], Validators = None, Chains = [], Timestamp = 0\<rparr>
          in Inr (find (\<lambda>tx. VMID tx = vmID) (Chains genesis)))"

text \<open>
  An instance of the parameters, to run the functions on: the identifiers are single
  bytes, \<open>Key()\<close> is the identifier's bytes and \<open>String()\<close> writes each byte as one
  of ten letters; the identifier of a chain transaction is its machine's, with one more byte.
  The codec writes two bytes and then the machines of the chains; it reads every byte as
  a chain of the machine with that identifier. So the genesis read back has two chains,
  of machines 1 and 2 (which here are \<open>avm\<close> and \<open>evm\<close>), and the loop of
  \<open>Aliases\<close> runs.
\<close>

definition demo_packages :: "(unit, unit, unit) packages" where
  "demo_packages = \<lparr>
     Codec_Marshal = (\<lambda>g. Inr ([1, 2] @ concat (map VMID (Chains g)))),
     Codec_Unmarshal = (\<lambda>bs g. g\<lparr>Chains := map (\<lambda>b. \<lparr>VMID = [b], body = ()\<rparr>) bs\<rparr>),
     Genesis_Initialize = (\<lambda>g. g),
     CreateChainTx_ID = (\<lambda>tx. VMID tx @ [7]),
     ID_String = map (\<lambda>b. ''abcdefghij'' ! (unat b mod 10)),
     ID_Key = (\<lambda>i. i),
     ids_Empty = [0],
     platformvm_ID = [9],
     avm_ID = [1],
     evm_ID = [2],
     spdagvm_ID = [3],
     spchainvm_ID = [4],
     timestampvm_ID = [5]\<rparr>"

section \<open>The vote tally of a container\<close>

text \<open>
  Modelled from the spec: the vote tally state machine of the consensus engine, which is
  code of this repository outside the two source files. The definitions follow sections
  3 and 4.5 of the specification. A container is Unknown, Processing, Accepted or
  Rejected.
\<close>

datatype status = S_Unknown | S_Processing | S_Accepted | S_Rejected

text \<open>
  Modelled from the spec: the state kept for a container, its lifecycle state, the
  current preference and the confidence counter.
\<close>

record 'p container =
  status :: status
  preference :: 'p
  confidence :: nat

text \<open>
  Modelled from the spec: the quorum threshold \<open>alpha\<close> and the confidence threshold
  \<open>beta\<close>.
\<close>

record thresholds =
  alpha :: nat
  beta :: nat

text \<open>
  Modelled from the spec: what can happen to a container. It is referenced for the first
  time (by a PushQuery, a Put or a local transaction); a polling round ends with an
  observed preference and the number of sampled peers that agree; a container it is an
  ancestor of is accepted; a container it conflicts with is accepted.
\<close>

datatype 'p event =
    Referenced
  | Round 'p nat
  | Descendant_Accepted
  | Conflict_Accepted

text \<open>
  Modelled from the spec: a polling round of a container in Processing. With a quorum
  the counter goes up by one, or restarts at 1 when the preference flips; without a
  quorum it falls to 0 and the preference stays. A counter that has reached \<open>beta\<close>
  makes the container Accepted.
\<close>

definition poll :: "thresholds \<Rightarrow> 'p container \<Rightarrow> 'p \<Rightarrow> nat \<Rightarrow> 'p container" where
  "poll th c p votes =
     (let c' =
        (if alpha th \<le> votes
         then (if p = preference c then c\<lparr>confidence := confidence c + 1\<rparr>
               else c\<lparr>preference := p, confidence := 1\<rparr>)
         else c\<lparr>confidence := 0\<rparr>)
      in if beta th \<le> confidence c' then c'\<lparr>status := S_Accepted\<rparr> else c')"

text \<open>
  Modelled from the spec: one transition of the lifecycle. Accepted and Rejected are
  terminal: no event changes a decided container. A container not yet decided becomes
  Accepted with a descendant and Rejected with the acceptance of a conflicting container.
\<close>

fun step :: "thresholds \<Rightarrow> 'p container \<Rightarrow> 'p event \<Rightarrow> 'p container" where
  "step th c e =
     (case status c of
        S_Accepted \<Rightarrow> c
      | S_Rejected \<Rightarrow> c
      | S_Unknown \<Rightarrow>
          (case e of
             Referenced \<Rightarrow> c\<lparr>status := S_Processing, confidence := 0\<rparr>
           | Round p votes \<Rightarrow> c
           | Descendant_Accepted \<Rightarrow> c\<lparr>status := S_Accepted\<rparr>
           | Conflict_Accepted \<Rightarrow> c\<lparr>status := S_Rejected\<rparr>)
      | S_Processing \<Rightarrow>
          (case e of
             Referenced \<Rightarrow> c
           | Round p votes \<Rightarrow> poll th c p votes
           | Descendant_Accepted \<Rightarrow> c\<lparr>status := S_Accepted\<rparr>
           | Conflict_Accepted \<Rightarrow> c\<lparr>status := S_Rejected\<rparr>))"

text \<open>Modelled from the spec: the events of a container's history, one after the other.\<close>

fun run :: "thresholds \<Rightarrow> 'p container \<Rightarrow> 'p event list \<Rightarrow> 'p container" where
  "run th c [] = c"
| "run th c (e # es) = run th (step th c e) es"

text \<open>A container nobody has seen yet, whose preference is a truth value.\<close>

definition X0 :: "bool container" where
  "X0 = \<lparr>status = S_Unknown, preference = True, confidence = 0\<rparr>"

section \<open>Properties of the test sender\<close>

lemmas sender_defs =
  GetAcceptedFrontier_def AcceptedFrontier_def GetAccepted_def Accepted_def
  Get_def Put_def PushQuery_def PullQuery_def Chits_def

lemma is_fatal_invoke:
  "is_fatal (invoke s c w) =
     (handler_nil (kind_of c) s \<and> cant_of (kind_of c) s \<and> \<not> (T s = None \<and> B s = None))"
  by (cases c) (auto simp: sender_defs split: option.splits)

lemma invoke_no_handler:
  "handler_nil (kind_of c) s \<Longrightarrow>
   invoke s c w =
     (if cant_of (kind_of c) s \<and> T s \<noteq> None
      then T_Fatalf (the (T s)) (''Unexpectedly called '' @ kind_name (kind_of c))
      else if cant_of (kind_of c) s \<and> B s \<noteq> None
      then B_Fatalf (the (B s)) (''Unexpectedly called '' @ kind_name (kind_of c))
      else Returned w)"
  by (cases c) (simp_all add: sender_defs)

lemma invoke_recorder: "invoke recorder c w = Returned (w @ [c])"
  by (cases c) (simp_all add: sender_defs recorder_def)

lemma kind_UNIV: "(UNIV :: kind set) = set all_kinds"
proof -
  have "k \<in> set all_kinds" for k
    by (cases k) (simp_all add: all_kinds_def)
  then show ?thesis by auto
qed

lemma range_kind_of: "range kind_of = UNIV"
proof -
  have "k \<in> range kind_of" for k
  proof (cases k)
    case K_GetAcceptedFrontier
    then show ?thesis using kind_of.simps(1) [of "{}" "[]" 0] by (metis rangeI)
  next
    case K_AcceptedFrontier
    then show ?thesis using kind_of.simps(2) [of "[]" "[]" 0 "{}"] by (metis rangeI)
  next
    case K_GetAccepted
    then show ?thesis using kind_of.simps(3) [of "{}" "[]" 0 "{}"] by (metis rangeI)
  next
    case K_Accepted
    then show ?thesis using kind_of.simps(4) [of "[]" "[]" 0 "{}"] by (metis rangeI)
  next
    case K_Get
    then show ?thesis using kind_of.simps(5) [of "[]" "[]" 0 "[]"] by (metis rangeI)
  next
    case K_Put
    then show ?thesis using kind_of.simps(6) [of "[]" "[]" 0 "[]" "[]"] by (metis rangeI)
  next
    case K_PushQuery
    then show ?thesis using kind_of.simps(7) [of "{}" "[]" 0 "[]" "[]"] by (metis rangeI)
  next
    case K_PullQuery
    then show ?thesis using kind_of.simps(8) [of "{}" "[]" 0 "[]"] by (metis rangeI)
  next
    case K_Chits
    then show ?thesis using kind_of.simps(9) [of "[]" "[]" 0 "{}"] by (metis rangeI)
  qed
  then show ?thesis by auto
qed

text \<open>
  Claim C1, as it is written: every request-style method (GetAcceptedFrontier,
  GetAccepted, Get, PushQuery, PullQuery) takes a set of peers first. \<open>Get\<close> does not:
  its first parameter is one \<open>ids.ShortID\<close>, and the handler receives that one peer.
\<close>

theorem Get_takes_one_peer_counterexample:
  "kind_of (Get_call [1] [2] 3 [4]) = K_Get
   \<and> first_argument (Get_call [1] [2] 3 [4]) = OnePeer [1]
   \<and> \<not> is_peer_set (first_argument (Get_call [1] [2] 3 [4]))
   \<and> Get recorder [1] [2] 3 [4] [] = Returned [Get_call [1] [2] 3 [4]]"
  by (simp add: Get_def recorder_def)

text \<open>
  Claim C1, amended: the first argument is a set of peer identifiers exactly for
  GetAcceptedFrontier, GetAccepted, PushQuery and PullQuery, and exactly one peer
  identifier for Get and for the response-style AcceptedFrontier, Accepted, Put and
  Chits.
\<close>

theorem first_argument_kinds:
  "is_peer_set (first_argument c) =
     (kind_of c \<in> {K_GetAcceptedFrontier, K_GetAccepted, K_PushQuery, K_PullQuery})
   \<and> (\<not> is_peer_set (first_argument c)) =
     (kind_of c \<in> {K_AcceptedFrontier, K_Accepted, K_Get, K_Put, K_Chits})"
  by (cases c) simp_all

text \<open>
  Claim C2, as it is written: a method whose handler is nil and whose flag is set reports
  a fatal failure. With neither \<open>T\<close> nor \<open>B\<close> attached the method returns and
  reports nothing.
\<close>

theorem silent_without_handle_counterexample:
  "handler_nil K_Get (Default True zero_sender)
   \<and> cant_of K_Get (Default True zero_sender)
   \<and> Get (Default True zero_sender) [1] [2] 3 [4] (0 :: nat) = Returned 0
   \<and> \<not> is_fatal (invoke (Default True zero_sender) (Get_call [1] [2] 3 [4]) (0 :: nat))"
  by (simp add: Default_def zero_sender_def Get_def)

text \<open>
  Claim C2, amended: for each of the nine methods, if the handler is nil, the flag is set
  and a testing handle is attached (\<open>T\<close> or \<open>B\<close>), the call ends in \<open>Fatalf\<close>
  with the message "Unexpectedly called" and the method's name: on \<open>T\<close> when \<open>T\<close>
  is attached, else on \<open>B\<close>.
\<close>

theorem unexpected_call_is_fatal:
  assumes "handler_nil (kind_of c) s" and "cant_of (kind_of c) s"
    and "T s \<noteq> None \<or> B s \<noteq> None"
  shows "is_fatal (invoke s c w)
    \<and> invoke s c w =
        (case T s of
           Some t \<Rightarrow> T_Fatalf t (''Unexpectedly called '' @ kind_name (kind_of c))
         | None \<Rightarrow> B_Fatalf (the (B s)) (''Unexpectedly called '' @ kind_name (kind_of c)))"
  using assms by (auto simp: invoke_no_handler)

theorem unexpected_call_is_fatal_witness:
  "invoke (Default True (zero_sender\<lparr>B := Some (TestingB ''BenchmarkSender'')\<rparr>))
     (Chits_call [1] [2] 3 {[4]}) (0 :: nat)
     = B_Fatalf (TestingB ''BenchmarkSender'') ''Unexpectedly called Chits''
   \<and> invoke (Default True (zero_sender\<lparr>T := Some (TestingT ''TestSender'')\<rparr>))
     (PullQuery_call {[1]} [2] 3 [4]) (0 :: nat)
     = T_Fatalf (TestingT ''TestSender'') ''Unexpectedly called PullQuery''"
  using unexpected_call_is_fatal [of "Chits_call [1] [2] 3 {[4]}"
      "Default True (zero_sender\<lparr>B := Some (TestingB ''BenchmarkSender'')\<rparr>)" "0 :: nat"]
    unexpected_call_is_fatal [of "PullQuery_call {[1]} [2] 3 [4]"
      "Default True (zero_sender\<lparr>T := Some (TestingT ''TestSender'')\<rparr>)" "0 :: nat"]
  by (simp add: Default_def zero_sender_def)

text \<open>
  Claim C3: the sender has exactly nine message operations, one per kind, with the names
  GetAcceptedFrontier, AcceptedFrontier, GetAccepted, Accepted, Get, Put, PushQuery,
  PullQuery and Chits; every one carries a chain identifier and a 32-bit request
  identifier, and hands both to its handler (the recording sender logs the very call,
  so the logged chain and request identifiers are the ones passed).
\<close>

theorem nine_operations:
  "distinct all_kinds \<and> length all_kinds = 9 \<and> set all_kinds = UNIV \<and> range kind_of = UNIV
   \<and> map kind_name all_kinds =
       [''GetAcceptedFrontier'', ''AcceptedFrontier'', ''GetAccepted'', ''Accepted'',
        ''Get'', ''Put'', ''PushQuery'', ''PullQuery'', ''Chits'']
   \<and> (\<forall>c w. invoke recorder c w = Returned (w @ [c]))
   \<and> (\<forall>c w. \<exists>w'. invoke recorder c w = Returned w' \<and>
         map chainID_of w' = map chainID_of w @ [chainID_of c] \<and>
         map requestID_of w' = map requestID_of w @ [requestID_of c])"
proof -
  have "distinct all_kinds" "length all_kinds = 9"
    by (simp_all add: all_kinds_def)
  moreover have "map kind_name all_kinds =
       [''GetAcceptedFrontier'', ''AcceptedFrontier'', ''GetAccepted'', ''Accepted'',
        ''Get'', ''Put'', ''PushQuery'', ''PullQuery'', ''Chits'']"
    by (simp add: all_kinds_def)
  ultimately show ?thesis
    by (simp add: kind_UNIV [symmetric] range_kind_of invoke_recorder)
qed

text \<open>
  Claim C4: a call is fatal only if a testing handle is attached. With \<open>T\<close> and
  \<open>B\<close> both nil no call of any of the nine methods fails, and a call without handler
  returns with nothing changed; a fatal call implies a nil handler, a set flag and an
  attached handle.
\<close>

theorem fatal_only_with_handle:
  "(T s = None \<and> B s = None \<longrightarrow>
      \<not> is_fatal (invoke s c w) \<and> (handler_nil (kind_of c) s \<longrightarrow> invoke s c w = Returned w))
   \<and> (is_fatal (invoke s c w) \<longrightarrow>
      handler_nil (kind_of c) s \<and> cant_of (kind_of c) s \<and> (T s \<noteq> None \<or> B s \<noteq> None))"
  by (auto simp: is_fatal_invoke invoke_no_handler)

theorem fatal_only_with_handle_witness:
  "T (Default True zero_sender :: nat ExternalSenderTest) = None
   \<and> B (Default True zero_sender :: nat ExternalSenderTest) = None
   \<and> cant_of K_PushQuery (Default True zero_sender :: nat ExternalSenderTest)
   \<and> invoke (Default True zero_sender) (PushQuery_call {[1]} [2] 3 [4] [5]) (0 :: nat) = Returned 0
   \<and> is_fatal (invoke (recorder\<lparr>GetF := None\<rparr>) (Get_call [1] [2] 3 [4]) [])
   \<and> T (recorder\<lparr>GetF := None\<rparr>) = Some (TestingT ''TestSender'')"
  using fatal_only_with_handle [of "Default True zero_sender"
      "PushQuery_call {[1]} [2] 3 [4] [5]" "0 :: nat"]
    fatal_only_with_handle [of "recorder\<lparr>GetF := None\<rparr>" "Get_call [1] [2] 3 [4]" "[]"]
  by (simp add: Default_def zero_sender_def recorder_def Get_def)

text \<open>
  Claim C7: \<open>Default cant\<close> sets the nine flags to \<open>cant\<close> and leaves \<open>T\<close>,
  \<open>B\<close> and the nine handlers as they were. Each method has a flag of its own: whether
  a call is fatal depends on the flag and the handler of its own kind only (and on the
  handles).
\<close>

theorem Default_sets_flags:
  "CantGetAcceptedFrontier (Default cant s) = cant
   \<and> CantAcceptedFrontier (Default cant s) = cant
   \<and> CantGetAccepted (Default cant s) = cant
   \<and> CantAccepted (Default cant s) = cant
   \<and> CantGet (Default cant s) = cant
   \<and> CantPut (Default cant s) = cant
   \<and> CantPullQuery (Default cant s) = cant
   \<and> CantPushQuery (Default cant s) = cant
   \<and> CantChits (Default cant s) = cant
   \<and> T (Default cant s) = T s
   \<and> B (Default cant s) = B s
   \<and> GetAcceptedFrontierF (Default cant s) = GetAcceptedFrontierF s
   \<and> AcceptedFrontierF (Default cant s) = AcceptedFrontierF s
   \<and> GetAcceptedF (Default cant s) = GetAcceptedF s
   \<and> AcceptedF (Default cant s) = AcceptedF s
   \<and> GetF (Default cant s) = GetF s
   \<and> PutF (Default cant s) = PutF s
   \<and> PushQueryF (Default cant s) = PushQueryF s
   \<and> PullQueryF (Default cant s) = PullQueryF s
   \<and> ChitsF (Default cant s) = ChitsF s
   \<and> is_fatal (invoke s c w) =
       (handler_nil (kind_of c) s \<and> cant_of (kind_of c) s \<and> \<not> (T s = None \<and> B s = None))"
  by (simp add: Default_def is_fatal_invoke)

text \<open>
  Claim C9: for each of the nine methods, a handler that is not nil is called once, with
  the arguments of the call, and the call returns without failure, whatever the flag and
  the handles are.
\<close>

theorem handler_precedence:
  "(GetAcceptedFrontierF s = Some f1 \<longrightarrow>
      GetAcceptedFrontier s validatorIDs chainID requestID w =
        Returned (f1 validatorIDs chainID requestID w))
   \<and> (AcceptedFrontierF s = Some f2 \<longrightarrow>
      AcceptedFrontier s validatorID chainID requestID containerIDs w =
        Returned (f2 validatorID chainID requestID containerIDs w))
   \<and> (GetAcceptedF s = Some f3 \<longrightarrow>
      GetAccepted s validatorIDs chainID requestID containerIDs w =
        Returned (f3 validatorIDs chainID requestID containerIDs w))
   \<and> (AcceptedF s = Some f4 \<longrightarrow>
      Accepted s validatorID chainID requestID containerIDs w =
        Returned (f4 validatorID chainID requestID containerIDs w))
   \<and> (GetF s = Some f5 \<longrightarrow>
      Get s validatorID chainID requestID vtxID w =
        Returned (f5 validatorID chainID requestID vtxID w))
   \<and> (PutF s = Some f6 \<longrightarrow>
      Put s validatorID chainID requestID vtxID vtx w =
        Returned (f6 validatorID chainID requestID vtxID vtx w))
   \<and> (PushQueryF s = Some f7 \<longrightarrow>
      PushQuery s validatorIDs chainID requestID vtxID vtx w =
        Returned (f7 validatorIDs chainID requestID vtxID vtx w))
   \<and> (PullQueryF s = Some f8 \<longrightarrow>
      PullQuery s validatorIDs chainID requestID vtxID w =
        Returned (f8 validatorIDs chainID requestID vtxID w))
   \<and> (ChitsF s = Some f9 \<longrightarrow>
      Chits s validatorID chainID requestID containerIDs w =
        Returned (f9 validatorID chainID requestID containerIDs w))
   \<and> (\<not> handler_nil (kind_of c) s \<longrightarrow> \<not> is_fatal (invoke s c w))"
  by (simp add: sender_defs is_fatal_invoke)

theorem handler_precedence_witness:
  "GetAcceptedFrontier recorder {[1]} [2] 3 [] = Returned [GetAcceptedFrontier_call {[1]} [2] 3]
   \<and> AcceptedFrontier recorder [1] [2] 3 {[4]} [] = Returned [AcceptedFrontier_call [1] [2] 3 {[4]}]
   \<and> GetAccepted recorder {[1]} [2] 3 {[4]} [] = Returned [GetAccepted_call {[1]} [2] 3 {[4]}]
   \<and> Accepted recorder [1] [2] 3 {[4]} [] = Returned [Accepted_call [1] [2] 3 {[4]}]
   \<and> Get recorder [1] [2] 3 [4] [] = Returned [Get_call [1] [2] 3 [4]]
   \<and> Put recorder [1] [2] 3 [4] [5] [] = Returned [Put_call [1] [2] 3 [4] [5]]
   \<and> PushQuery recorder {[1]} [2] 3 [4] [5] [] = Returned [PushQuery_call {[1]} [2] 3 [4] [5]]
   \<and> PullQuery recorder {[1]} [2] 3 [4] [] = Returned [PullQuery_call {[1]} [2] 3 [4]]
   \<and> Chits recorder [1] [2] 3 {[4]} [] = Returned [Chits_call [1] [2] 3 {[4]}]
   \<and> \<not> is_fatal (invoke recorder (Chits_call [1] [2] 3 {[4]}) [])
   \<and> CantChits recorder \<and> T recorder = Some (TestingT ''TestSender'')"
  using handler_precedence [where s = recorder and w = "[]" and validatorIDs = "{[1]}"
      and validatorID = "[1]" and chainID = "[2]" and requestID = 3 and containerIDs = "{[4]}"
      and vtxID = "[4]" and vtx = "[5]" and c = "Chits_call [1] [2] 3 {[4]}"]
  by (simp add: recorder_def)

section \<open>Network names\<close>

lemma of_char_digit_char: "d < 10 \<Longrightarrow> (of_char (digit_char d) :: nat) = 48 + d"
  by (simp add: digit_char_def)

lemma is_digit_digit_char: "d < 10 \<Longrightarrow> is_digit (digit_char d)"
  by (simp add: is_digit_def of_char_digit_char)

lemma digit_val_digit_char: "d < 10 \<Longrightarrow> digit_val (digit_char d) = d"
  by (simp add: digit_val_def of_char_digit_char)

lemma ParseUint_loop_snoc:
  "ParseUint_loop a (xs @ [c]) =
     (case ParseUint_loop a xs of Inl e \<Rightarrow> Inl e | Inr m \<Rightarrow> ParseUint_loop m [c])"
  by (induction xs arbitrary: a) auto

lemma decimal_simps:
  "n < 10 \<Longrightarrow> decimal n = [digit_char n]"
  "\<not> n < 10 \<Longrightarrow> decimal n = decimal (n div 10) @ [digit_char (n mod 10)]"
  by (subst decimal.simps, simp)+

lemma ParseUint_loop_decimal:
  "n \<le> maxUint64 \<Longrightarrow> ParseUint_loop 0 (decimal n) = Inr n"
proof (induction n rule: decimal.induct)
  case (1 n)
  show ?case
  proof (cases "n < 10")
    case True
    with "1.prems" show ?thesis
      by (simp add: decimal_simps is_digit_digit_char digit_val_digit_char maxUint64_def)
  next
    case False
    have small: "n div 10 \<le> maxUint64" using "1.prems" by simp
    have ih: "ParseUint_loop 0 (decimal (n div 10)) = Inr (n div 10)"
      using "1.IH" False small by simp
    have cut: "\<not> n div 10 \<ge> maxUint64 div 10 + 1"
      using "1.prems" by (simp add: maxUint64_def)
    have val: "n div 10 * 10 + n mod 10 = n" by simp
    show ?thesis
      using False "1.prems" cut
      by (simp add: decimal_simps ParseUint_loop_snoc ih is_digit_digit_char
          digit_val_digit_char val)
  qed
qed

lemma decimal_not_Nil: "decimal n \<noteq> []"
  by (cases "n < 10") (simp_all add: decimal_simps)

lemma hd_decimal_digit: "is_digit (hd (decimal n))"
proof (induction n rule: decimal.induct)
  case (1 n)
  show ?case
  proof (cases "n < 10")
    case True
    then show ?thesis by (simp add: decimal_simps is_digit_digit_char)
  next
    case False
    then show ?thesis
      using "1.IH" decimal_not_Nil [of "n div 10"]
      by (simp add: decimal_simps)
  qed
qed

lemma lower_char_digit: "is_digit c \<Longrightarrow> lower_char c = c"
  by (simp add: is_digit_def lower_char_def)

lemma set_decimal_digit: "c \<in> set (decimal n) \<Longrightarrow> is_digit c"
proof (induction n arbitrary: c rule: decimal.induct)
  case (1 n)
  show ?case
  proof (cases "n < 10")
    case True
    with "1.prems" show ?thesis by (simp add: decimal_simps is_digit_digit_char)
  next
    case False
    with "1.prems" "1.IH" show ?thesis
      by (auto simp add: decimal_simps is_digit_digit_char)
  qed
qed

lemma ToLower_decimal: "ToLower (decimal n) = decimal n"
  unfolding ToLower_def by (rule map_idI) (simp add: lower_char_digit set_decimal_digit)

lemma ToLower_network: "ToLower (''network-'' @ decimal n) = ''network-'' @ decimal n"
  using ToLower_decimal [of n] by (simp add: ToLower_def lower_char_def)

lemma ParseUint_decimal: "n \<le> maxUint64 \<Longrightarrow> ParseUint (decimal n) = Inr n"
  by (simp add: ParseUint_def decimal_not_Nil ParseUint_loop_decimal)

lemma ParseUint_network: "ParseUint (''network-'' @ ds) = Inl ErrSyntax"
  by (simp add: ParseUint_def is_digit_def)

lemma is_digit_not_sign: "is_digit c \<Longrightarrow> c \<noteq> CHR ''+'' \<and> c \<noteq> CHR ''-''"
  by (auto simp: is_digit_def)

lemma Atoi_decimal: "n < 2 ^ 63 \<Longrightarrow> Atoi (decimal n) = Inr (int n)"
  using is_digit_not_sign [OF hd_decimal_digit [of n]]
  by (simp add: Atoi_def decimal_not_Nil ParseUint_decimal maxUint64_def Let_def)

lemma MatchString_network: "validNetworkName_MatchString (''network-'' @ decimal n)"
  using hd_decimal_digit [of n] decimal_not_Nil [of n]
  by (cases "decimal n") (simp_all add: matches_here_def)

lemma NetworkNameToNetworkID_network: "NetworkNameToNetworkID (''network-'' @ ds) = None"
  by (simp add: NetworkNameToNetworkID_def MainnetName_def TestnetName_def BorealisName_def
      LocalName_def)

lemma NetworkID_network:
  assumes "n \<le> MaxUint32"
  shows "NetworkID (''network-'' @ decimal n) = Inr (of_nat n)"
proof -
  define s where "s = ''network-'' @ decimal n"
  have lower: "ToLower s = s"
    unfolding s_def by (rule ToLower_network)
  have special: "NetworkNameToNetworkID s = None"
    unfolding s_def by (rule NetworkNameToNetworkID_network)
  have uint: "ParseUint s = Inl ErrSyntax"
    unfolding s_def by (rule ParseUint_network)
  have match: "validNetworkName_MatchString s"
    unfolding s_def by (rule MatchString_network)
  have len: "\<not> length s < 8"
    by (simp add: s_def)
  have rest: "drop 8 s = decimal n"
    by (simp add: s_def)
  have atoi: "Atoi (decimal n) = Inr (int n)"
    using assms by (intro Atoi_decimal) (simp add: MaxUint32_def)
  have "NetworkID s = Inr (of_nat n)"
    using assms by (simp add: NetworkID_def lower special uint match len rest atoi)
  then show ?thesis
    by (simp only: s_def)
qed

lemma NetworkID_special:
  "NetworkID ''mainnet'' = Inr 1" "NetworkID ''borealis'' = Inr 2" "NetworkID ''local'' = Inr 12345"
  by (simp_all add: NetworkID_def ToLower_def lower_char_def NetworkNameToNetworkID_def MainnetName_def TestnetName_def BorealisName_def
      LocalName_def MainnetID_def TestnetID_def BorealisID_def LocalID_def)

lemma NetworkName_cases:
  "NetworkName w = (if w = 1 then ''mainnet'' else if w = 2 then ''borealis''
      else if w = 12345 then ''local'' else ''network-'' @ decimal (unat w))"
  by (simp add: NetworkName_def NetworkIDToNetworkName_def MainnetName_def BorealisName_def
      LocalName_def MainnetID_def TestnetID_def LocalID_def)

text \<open>
  Claim C6: for every 32-bit network identifier, \<open>NetworkID (NetworkName networkID)\<close>
  is \<open>(networkID, nil)\<close>. The other direction fails on names: \<open>"testnet"\<close> is
  network 2, whose name is \<open>"borealis"\<close>.
\<close>

theorem NetworkID_NetworkName:
  "NetworkID (NetworkName networkID) = Inr networkID
   \<and> NetworkID ''testnet'' = Inr 2 \<and> NetworkName 2 = ''borealis''"
proof -
  have testnet: "NetworkID ''testnet'' = Inr 2"
    by (simp add: NetworkID_def ToLower_def lower_char_def NetworkNameToNetworkID_def
        MainnetName_def TestnetName_def BorealisName_def LocalName_def TestnetID_def)
  have borealis: "NetworkName 2 = ''borealis''"
    by (simp add: NetworkName_cases)
  have bound: "unat networkID \<le> MaxUint32"
    using unsigned_less [of networkID, where ?'a = nat] by (simp add: MaxUint32_def)
  have "NetworkID (NetworkName networkID) = Inr networkID"
  proof (cases "networkID = 1 \<or> networkID = 2 \<or> networkID = 12345")
    case True
    then show ?thesis
      by (auto simp: NetworkName_cases NetworkID_special)
  next
    case False
    then have "NetworkName networkID = ''network-'' @ decimal (unat networkID)"
      by (simp only: NetworkName_cases) simp
    then show ?thesis
      using NetworkID_network [OF bound] by simp
  qed
  with testnet borealis show ?thesis
    by simp
qed

section \<open>Genesis and aliases\<close>

lemma Genesis_other: "networkID \<noteq> LocalID \<Longrightarrow> Genesis pk networkID = Inl (Panic ''unknown network ID provided'')"
  by (simp add: Genesis_def)

lemma Genesis_local:
  "Genesis pk LocalID =
     (case Codec_Marshal pk \<lparr>Accounts = [], Validators = Some [], Chains = [], Timestamp = 0\<rparr> of
        Inl err \<Rightarrow> Inl (Panic err) | Inr genesisBytes \<Rightarrow> Inr genesisBytes)"
  by (simp add: Genesis_def)

lemma demo_simps:
  "Codec_Marshal demo_packages g = Inr ([1, 2] @ concat (map VMID (Chains g)))"
  "Codec_Unmarshal demo_packages bs g = g\<lparr>Chains := map (\<lambda>b. \<lparr>VMID = [b], body = ()\<rparr>) bs\<rparr>"
  "Genesis_Initialize demo_packages g = g"
  "CreateChainTx_ID demo_packages tx = VMID tx @ [7]"
  "ID_String demo_packages = map (\<lambda>b. ''abcdefghij'' ! (unat b mod 10))"
  "ID_Key demo_packages i = i"
  "ids_Empty demo_packages = [0]"
  "platformvm_ID demo_packages = [9]"
  "avm_ID demo_packages = [1]"
  "evm_ID demo_packages = [2]"
  "spdagvm_ID demo_packages = [3]"
  "spchainvm_ID demo_packages = [4]"
  "timestampvm_ID demo_packages = [5]"
  by (simp_all add: demo_packages_def)

text \<open>
  Claim C5: \<open>Genesis\<close> panics for every network identifier but \<open>LocalID\<close>, which
  is 12345; for \<open>LocalID\<close> it returns the bytes the codec marshals the empty state to
  (no account, no validator, no chain, time 0), and panics with the codec's error when
  marshalling fails. \<open>Aliases\<close> and \<open>VMGenesis\<close> call \<open>Genesis\<close> first, so they
  panic too for every other identifier and return for \<open>LocalID\<close>.
\<close>

theorem Genesis_only_local:
  "LocalID = 12345
   \<and> (networkID \<noteq> LocalID \<longrightarrow>
        Genesis pk networkID = Inl (Panic ''unknown network ID provided'')
        \<and> Aliases pk networkID = Inl (Panic ''unknown network ID provided'')
        \<and> VMGenesis pk networkID vmID = Inl (Panic ''unknown network ID provided''))
   \<and> (Codec_Marshal pk \<lparr>Accounts = [], Validators = Some [], Chains = [], Timestamp = 0\<rparr>
         = Inr genesisBytes \<longrightarrow>
        Genesis pk LocalID = Inr genesisBytes
        \<and> (\<exists>tables. Aliases pk LocalID = Inr tables)
        \<and> (\<exists>tx. VMGenesis pk LocalID vmID = Inr tx))
   \<and> (Codec_Marshal pk \<lparr>Accounts = [], Validators = Some [], Chains = [], Timestamp = 0\<rparr>
         = Inl err \<longrightarrow>
        Genesis pk LocalID = Inl (Panic err)
        \<and> Aliases pk LocalID = Inl (Panic err)
        \<and> VMGenesis pk LocalID vmID = Inl (Panic err))"
proof -
  let ?empty = "\<lparr>Accounts = [], Validators = Some [], Chains = [], Timestamp = 0\<rparr>
    :: ('a, 'b, 'c) platformvm_Genesis"
  have id: "LocalID = 12345"
    by (simp add: LocalID_def)
  have other: "networkID \<noteq> LocalID \<longrightarrow>
        Genesis pk networkID = Inl (Panic ''unknown network ID provided'')
        \<and> Aliases pk networkID = Inl (Panic ''unknown network ID provided'')
        \<and> VMGenesis pk networkID vmID = Inl (Panic ''unknown network ID provided'')"
    by (simp add: Genesis_other Aliases_def VMGenesis_def)
  have ok: "Codec_Marshal pk ?empty = Inr genesisBytes \<longrightarrow>
        Genesis pk LocalID = Inr genesisBytes
        \<and> (\<exists>tables. Aliases pk LocalID = Inr tables)
        \<and> (\<exists>tx. VMGenesis pk LocalID vmID = Inr tx)"
    by (simp add: Genesis_local Aliases_def VMGenesis_def Let_def)
  have err: "Codec_Marshal pk ?empty = Inl err \<longrightarrow>
        Genesis pk LocalID = Inl (Panic err)
        \<and> Aliases pk LocalID = Inl (Panic err)
        \<and> VMGenesis pk LocalID vmID = Inl (Panic err)"
    by (simp add: Genesis_local Aliases_def VMGenesis_def)
  from id other ok err show ?thesis
    by blast
qed

theorem Genesis_only_local_witness:
  "Genesis demo_packages 1 = Inl (Panic ''unknown network ID provided'')
   \<and> Aliases demo_packages 1 = Inl (Panic ''unknown network ID provided'')
   \<and> VMGenesis demo_packages 1 [2] = Inl (Panic ''unknown network ID provided'')
   \<and> Genesis demo_packages 12345 = Inr [1, 2]
   \<and> (\<exists>tables. Aliases demo_packages 12345 = Inr tables)
   \<and> (\<exists>tx. VMGenesis demo_packages 12345 [2] = Inr tx)
   \<and> Genesis (demo_packages\<lparr>Codec_Marshal := \<lambda>g. Inl ''marshal failed''\<rparr>) 12345
       = Inl (Panic ''marshal failed'')"
proof -
  let ?empty = "\<lparr>Accounts = [], Validators = Some [], Chains = [], Timestamp = 0\<rparr>
    :: (unit, unit, unit) platformvm_Genesis"
  let ?failing = "demo_packages\<lparr>Codec_Marshal := \<lambda>g. Inl ''marshal failed''\<rparr>"
  have ne: "(1 :: uint32) \<noteq> LocalID"
    by (simp add: LocalID_def)
  have ok: "Codec_Marshal demo_packages ?empty = Inr [1, 2]"
    by (simp add: demo_simps)
  have bad: "Codec_Marshal ?failing ?empty = Inl ''marshal failed''"
    by simp
  have id: "LocalID = 12345"
    by (simp add: LocalID_def)
  from ne ok Genesis_only_local [of 1 demo_packages "[2]" "[1, 2]" "''none''"]
  have "Genesis demo_packages 1 = Inl (Panic ''unknown network ID provided'')
   \<and> Aliases demo_packages 1 = Inl (Panic ''unknown network ID provided'')
   \<and> VMGenesis demo_packages 1 [2] = Inl (Panic ''unknown network ID provided'')
   \<and> Genesis demo_packages LocalID = Inr [1, 2]
   \<and> (\<exists>tables. Aliases demo_packages LocalID = Inr tables)
   \<and> (\<exists>tx. VMGenesis demo_packages LocalID [2] = Inr tx)"
    by blast
  moreover from bad Genesis_only_local [of 1 ?failing "[2]" "[]" "''marshal failed''"]
  have "Genesis ?failing LocalID = Inl (Panic ''marshal failed'')"
    by blast
  ultimately show ?thesis
    by (simp only: id) 
qed



















section \<open>The vote tally\<close>

lemma step_decided:
  "status c = S_Accepted \<or> status c = S_Rejected \<Longrightarrow> step th c e = c"
  by auto

lemma run_decided:
  "status c = S_Accepted \<or> status c = S_Rejected \<Longrightarrow> run th c es = c"
  by (induction es) auto

lemma poll_accepts:
  "beta th \<le> confidence (poll th c p votes) \<Longrightarrow> status (poll th c p votes) = S_Accepted"
  by (auto simp: poll_def Let_def split: if_splits)

text \<open>
  Claim C10: a container in Processing whose confidence counter reaches \<open>beta\<close> in a
  polling round is Accepted after the round; and an Accepted container stays as it is
  through every later sequence of events: it never becomes Rejected or Processing
  again.
\<close>

theorem accepted_is_terminal:
  "(status c = S_Processing \<and> beta th \<le> confidence (step th c (Round p votes)) \<longrightarrow>
      status (step th c (Round p votes)) = S_Accepted)
   \<and> (status c = S_Accepted \<longrightarrow>
      run th c es = c \<and> status (run th c es) = S_Accepted
      \<and> status (run th c es) \<noteq> S_Rejected \<and> status (run th c es) \<noteq> S_Processing)"
proof -
  have "status c = S_Processing \<and> beta th \<le> confidence (step th c (Round p votes)) \<longrightarrow>
      status (step th c (Round p votes)) = S_Accepted"
    by (auto simp: poll_accepts)
  moreover have "status c = S_Accepted \<longrightarrow>
      run th c es = c \<and> status (run th c es) = S_Accepted
      \<and> status (run th c es) \<noteq> S_Rejected \<and> status (run th c es) \<noteq> S_Processing"
    by (simp add: run_decided del: run.simps)
  ultimately show ?thesis by blast
qed

theorem accepted_is_terminal_witness:
  "run \<lparr>alpha = 2, beta = 2\<rparr> X0 [Referenced, Round True 2]
     = \<lparr>status = S_Processing, preference = True, confidence = 1\<rparr>
   \<and> step \<lparr>alpha = 2, beta = 2\<rparr> \<lparr>status = S_Processing, preference = True, confidence = 1\<rparr>
       (Round True 2)
     = \<lparr>status = S_Accepted, preference = True, confidence = 2\<rparr>
   \<and> run \<lparr>alpha = 2, beta = 2\<rparr> \<lparr>status = S_Accepted, preference = True, confidence = 2\<rparr>
       [Round False 3, Round True 1, Conflict_Accepted, Referenced, Round False 3]
     = \<lparr>status = S_Accepted, preference = True, confidence = 2\<rparr>"
  using accepted_is_terminal [of "\<lparr>status = S_Processing, preference = True, confidence = 1\<rparr>"
      "\<lparr>alpha = 2, beta = 2\<rparr>" True 2 "[]"]
    accepted_is_terminal [of "\<lparr>status = S_Accepted, preference = True, confidence = 2\<rparr>"
      "\<lparr>alpha = 2, beta = 2\<rparr>" True 2
      "[Round False 3, Round True 1, Conflict_Accepted, Referenced, Round False 3]"]
  by (simp add: X0_def poll_def)

end
